theory Spec2Isabelle
  imports Complex_Main
begin

section \<open>BloggerApp.jsx: the data the component works on\<close>

text \<open>
  The component \<open>App\<close> of \<open>src/BloggerApp.jsx\<close> keeps nine pieces of React state
  (\<open>useState\<close>, lines 38--46) and talks to two collaborators, the identity provider and
  the document store. The model below is a shallow embedding: the React state is a record,
  every callback of the component is a function from the state before to the state after, and
  what a callback does to the outside world (store calls, \<open>console\<close> output, \<open>alert\<close>) is
  appended to traces kept in the same record. An \<open>await\<close> on a store call takes the outcome
  of that call as an argument of the callback.
\<close>

subsection \<open>Timestamps\<close>

text \<open>
  The \<open>timestamp\<close> field of a document as \<open>doc.data()\<close> delivers it: \<open>null\<close> while the
  server timestamp of a local write is not yet resolved, a Firestore Timestamp object (the
  only value with a \<open>toDate\<close> method) once it is, or a plain number, which \<open>formatDate\<close>
  provides for. \<open>TsServer sec ns\<close> is the Timestamp with the fields \<open>seconds = sec\<close>
  (seconds since 1970) and \<open>nanoseconds = ns\<close>; \<open>TsNumber n\<close> is the integer \<open>n\<close>.
\<close>

datatype timestamp = TsNull | TsServer int nat | TsNumber int

text \<open>
  A JavaScript number is a double. \<open>to_double n d\<close> is the double nearest to the fraction
  \<open>n / d\<close> (for \<open>d > 0\<close>), with 53 significant bits and ties going to the even
  neighbour. The exponent range of a double is not modelled: no Timestamp and no 64-bit
  integer leaves it.
\<close>

fun bits :: "nat \<Rightarrow> nat" where
  "bits n = (if n = 0 then 0 else Suc (bits (n div 2)))"

declare bits.simps [simp del]

definition pow2 :: "int \<Rightarrow> rat" where
  "pow2 e = (if 0 \<le> e then 2 ^ nat e else 1 / 2 ^ nat (- e))"

text \<open>The \<open>e\<close> with \<open>2 ^ e \<le> n / d < 2 ^ (e + 1)\<close>, for positive \<open>n\<close> and \<open>d\<close>.\<close>

definition binade :: "nat \<Rightarrow> nat \<Rightarrow> int" where
  "binade n d =
     (let k = int (bits n) - int (bits d)
      in if pow2 k * of_nat d \<le> of_nat n then k else k - 1)"

text \<open>The integer nearest to \<open>n / d\<close>, the even one of two that are equally near.\<close>

definition round_half_even :: "nat \<Rightarrow> nat \<Rightarrow> nat" where
  "round_half_even n d =
     (let q = n div d; r = n mod d
      in if 2 * r < d then q else if d < 2 * r then q + 1 else if even q then q else q + 1)"

definition to_double :: "nat \<Rightarrow> nat \<Rightarrow> rat" where
  "to_double n d =
     (if n = 0 then 0
      else
        (let e = binade n d - 52;
             m = (if 0 \<le> e then round_half_even n (d * 2 ^ nat e)
                  else round_half_even (n * 2 ^ nat (- e)) d)
         in of_nat m * pow2 e))"

definition double_of :: "int \<Rightarrow> nat \<Rightarrow> rat" where
  "double_of n d = (if n < 0 then - to_double (nat (- n)) d else to_double (nat n) d)"

text \<open>
  The number JavaScript computes with in \<open>b.timestamp - a.timestamp\<close> (line 108).
  \<open>null\<close> converts to \<open>0\<close>. A Timestamp object converts through its \<open>valueOf()\<close>, the
  text of \<open>seconds + 62135596800\<close> (the seconds since the year 1, twelve digits), a point,
  and \<open>nanoseconds\<close> (nine digits); that text converts to the double nearest to the
  decimal it writes. A number is the double that holds it.
\<close>

fun toNumber :: "timestamp \<Rightarrow> rat" where
  "toNumber TsNull = 0"
| "toNumber (TsServer sec ns) =
     double_of ((sec + 62135596800) * 1000000000 + int ns) 1000000000"
| "toNumber (TsNumber n) = double_of n 1"

subsection \<open>Documents and list entries\<close>

text \<open>What \<open>doc.data()\<close> holds for a document of the collection \<open>blog_posts\<close>.\<close>

record doc_data =
  d_title :: string
  d_description :: string
  d_author :: string
  d_timestamp :: timestamp

text \<open>A document of a snapshot: \<open>doc.id\<close> and \<open>doc.data()\<close>.\<close>

record document =
  doc_id :: string
  doc_fields :: doc_data

text \<open>An entry of the \<open>blogs\<close> list: \<open>{ id: doc.id, ...doc.data() }\<close> (lines 103--106).\<close>

record blog =
  b_id :: string
  b_title :: string
  b_description :: string
  b_author :: string
  b_timestamp :: timestamp

definition toBlog :: "document \<Rightarrow> blog" where
  "toBlog d =
     \<lparr> b_id = doc_id d,
       b_title = d_title (doc_fields d),
       b_description = d_description (doc_fields d),
       b_author = d_author (doc_fields d),
       b_timestamp = d_timestamp (doc_fields d) \<rparr>"

subsection \<open>Calls to the collaborators and the traces\<close>

text \<open>
  A field value written to the store: a text, or the sentinel that \<open>serverTimestamp()\<close>
  returns, which asks the store to fill in its own time.
\<close>

datatype field_value = Text string | ServerTimestamp

type_synonym fields = "(string \<times> field_value) list"

text \<open>
  A reference is the list of its path components, as they are passed to \<open>collection\<close> and
  \<open>doc\<close>.
\<close>

type_synonym path = "string list"

datatype call =
    AddDoc path fields
  | UpdateDoc path fields
  | DeleteDoc path
  | SignInWithCustomToken string
  | SignInAnonymously

datatype console_entry =
    ConsoleError string string
  | ConsoleLog string string

text \<open>How an awaited call ends: the promise resolves, or it rejects with an error.\<close>

datatype outcome = Resolved | Rejected string

subsection \<open>The state of the component\<close>

record app =
  appId :: string
  firebaseConfig :: "(string \<times> string) list"
  initialAuthToken :: "string option"
  blogs :: "blog list"
  title :: string
  description :: string
  author :: string
  editingId :: "string option"
  loading :: bool
  userId :: "string option"
  db :: bool
  auth :: bool
  calls :: "call list"
  console :: "console_entry list"
  alerts :: "string list"

text \<open>
  The globals of the hosting page (lines 26--35): each may be undefined. The configuration
  is the object that \<open>JSON.parse\<close> returns, as its list of keys and values.
\<close>

record globals =
  g_app_id :: "string option"
  g_firebase_config :: "(string \<times> string) list option"
  g_initial_auth_token :: "string option"

definition initial :: "globals \<Rightarrow> app" where
  "initial g =
     \<lparr> appId = (case g_app_id g of Some a \<Rightarrow> a | None \<Rightarrow> ''default-app-id''),
       firebaseConfig = (case g_firebase_config g of Some c \<Rightarrow> c | None \<Rightarrow> []),
       initialAuthToken = g_initial_auth_token g,
       blogs = [],
       title = [],
       description = [],
       author = [],
       editingId = None,
       loading = True,
       userId = None,
       db = False,
       auth = False,
       calls = [],
       console = [],
       alerts = [] \<rparr>"

text \<open>
  JavaScript truthiness of a value that is \<open>null\<close> or a string: \<open>null\<close> and the empty
  string are falsy.
\<close>

fun truthy :: "string option \<Rightarrow> bool" where
  "truthy None = False"
| "truthy (Some s) = (s \<noteq> [])"

text \<open>The Draft of the form: the three text fields and \<open>editingId\<close>.\<close>

definition draft :: "app \<Rightarrow> string \<times> string \<times> string \<times> string option" where
  "draft s = (title s, description s, author s, editingId s)"

section \<open>The callbacks\<close>

subsection \<open>References\<close>

text \<open>
  \<open>collection(db, 'artifacts', appId, 'users', userId, 'blog_posts')\<close> (lines 93--100 and
  147) and \<open>doc(db, 'artifacts', appId, 'users', userId, 'blog_posts', id)\<close> (lines 141
  and 170).
\<close>

definition collection_path :: "string \<Rightarrow> string \<Rightarrow> path" where
  "collection_path a uid = [''artifacts'', a, ''users'', uid, ''blog_posts'']"

definition doc_path :: "string \<Rightarrow> string \<Rightarrow> string \<Rightarrow> path" where
  "doc_path a uid i = [''artifacts'', a, ''users'', uid, ''blog_posts'', i]"

text \<open>The path of a reference as one string: its components joined by a slash.\<close>

fun path_string :: "path \<Rightarrow> string" where
  "path_string [] = []"
| "path_string [x] = x"
| "path_string (x # y # ys) = x @ ''/'' @ path_string (y # ys)"

text \<open>
  \<open>collection\<close> and \<open>doc\<close> of the store's library check the path they are given and throw
  where it is not one of a collection, or of a document. The library takes each component
  apart at its slashes (\<open>split('/')\<close>) and drops the empty pieces; a component with two
  slashes in a row is refused. What is left are the segments of the path: a collection has
  an odd number of them, a document an even number.
\<close>

fun split_slash :: "string \<Rightarrow> string list" where
  "split_slash [] = [[]]"
| "split_slash (c # cs) =
     (if c = CHR ''/'' then [] # split_slash cs
      else (case split_slash cs of p # ps \<Rightarrow> (c # p) # ps | [] \<Rightarrow> [[c]]))"

definition pieces :: "string \<Rightarrow> string list" where
  "pieces p = filter (\<lambda>x. x \<noteq> []) (split_slash p)"

fun double_slash :: "string \<Rightarrow> bool" where
  "double_slash (a # b # cs) = (if a = CHR ''/'' \<and> b = CHR ''/'' then True else double_slash (b # cs))"
| "double_slash cs = False"

text \<open>The segments of a path given by its components; \<open>None\<close> where the library throws.\<close>

definition segments :: "path \<Rightarrow> string list option" where
  "segments p = (if list_ex double_slash p then None else Some (concat (map pieces p)))"

text \<open>
  The reference \<open>collection\<close> returns for the components \<open>p\<close>, and the one \<open>doc\<close> returns;
  \<open>None\<close> where the call throws.
\<close>

definition collection_ref :: "path \<Rightarrow> path option" where
  "collection_ref p =
     (case segments p of
        None \<Rightarrow> None
      | Some segs \<Rightarrow> if even (length segs) then None else Some p)"

definition doc_ref :: "path \<Rightarrow> path option" where
  "doc_ref p =
     (case segments p of
        None \<Rightarrow> None
      | Some segs \<Rightarrow> if even (length segs) then Some p else None)"

text \<open>The error both throw.\<close>

definition invalid_argument :: string where
  "invalid_argument = ''invalid-argument''"

subsection \<open>The form\<close>

definition resetForm :: "app \<Rightarrow> app" where
  "resetForm s = s\<lparr> title := [], description := [], author := [], editingId := None \<rparr>"

definition handleEdit :: "blog \<Rightarrow> app \<Rightarrow> app" where
  "handleEdit b s =
     s\<lparr> title := b_title b, description := b_description b, author := b_author b,
        editingId := Some (b_id b) \<rparr>"

text \<open>The object \<open>blogData\<close> of lines 130--135.\<close>

definition blogData :: "app \<Rightarrow> fields" where
  "blogData s =
     [(''title'', Text (title s)),
      (''description'', Text (description s)),
      (''author'', Text (author s)),
      (''timestamp'', ServerTimestamp)]"

text \<open>
  The call of lines 138--150 for a user id \<open>uid\<close>: \<open>updateDoc\<close> on the document
  \<open>editingId\<close> when \<open>editingId\<close> is truthy, \<open>addDoc\<close> on the collection otherwise;
  \<open>None\<close> when \<open>doc\<close> or \<open>collection\<close> throws, so that no call is made.
\<close>

fun write_call :: "app \<Rightarrow> string \<Rightarrow> call option" where
  "write_call s uid =
     (case editingId s of
        Some eid \<Rightarrow>
          (if eid \<noteq> []
           then map_option (\<lambda>p. UpdateDoc p (blogData s))
                  (doc_ref (doc_path (appId s) uid eid))
           else map_option (\<lambda>p. AddDoc p (blogData s))
                  (collection_ref (collection_path (appId s) uid)))
      | None \<Rightarrow>
          map_option (\<lambda>p. AddDoc p (blogData s))
            (collection_ref (collection_path (appId s) uid)))"

text \<open>The branch of lines 125--128: an alert, and nothing else.\<close>

definition reject_submit :: "app \<Rightarrow> app" where
  "reject_submit s = s\<lparr> alerts := alerts s @ [''Please fill out all fields.''] \<rparr>"

text \<open>
  \<open>handleSubmit\<close> (lines 123--155). The guard of line 125 is
  \<open>!title || !description || !author || !db || !userId\<close>; \<open>!userId\<close> holds for \<open>null\<close>
  and for the empty string. The argument \<open>res\<close> is how the awaited \<open>updateDoc\<close> or
  \<open>addDoc\<close> ends. Where \<open>doc\<close> or \<open>collection\<close> throws, inside the \<open>try\<close>, no call is
  made and the \<open>catch\<close> of lines 152--154 logs the error, as it does for a rejected call.
\<close>

definition handleSubmit :: "outcome \<Rightarrow> app \<Rightarrow> app" where
  "handleSubmit res s =
     (case userId s of
        None \<Rightarrow> reject_submit s
      | Some uid \<Rightarrow>
          if title s = [] \<or> description s = [] \<or> author s = [] \<or> \<not> db s \<or> uid = []
          then reject_submit s
          else
            (case write_call s uid of
               None \<Rightarrow>
                 s\<lparr> console := console s @
                       [ConsoleError ''Error adding/updating document:'' invalid_argument] \<rparr>
             | Some c \<Rightarrow>
                 (let s1 = s\<lparr> calls := calls s @ [c] \<rparr>
                  in case res of
                       Resolved \<Rightarrow> resetForm s1
                     | Rejected err \<Rightarrow>
                         s1\<lparr> console := console s1 @
                               [ConsoleError ''Error adding/updating document:'' err] \<rparr>)))"

subsection \<open>Deleting\<close>

text \<open>
  \<open>handleDelete\<close> (lines 166--175); \<open>res\<close> is how the awaited \<open>deleteDoc\<close> ends. Where
  \<open>doc\<close> throws, no call is made and the \<open>catch\<close> logs the error.
\<close>

definition handleDelete :: "string \<Rightarrow> outcome \<Rightarrow> app \<Rightarrow> app" where
  "handleDelete i res s =
     (case userId s of
        None \<Rightarrow> s
      | Some uid \<Rightarrow>
          if \<not> db s \<or> uid = [] then s
          else
            (case doc_ref (doc_path (appId s) uid i) of
               None \<Rightarrow>
                 s\<lparr> console := console s @
                       [ConsoleError ''Error deleting document:'' invalid_argument] \<rparr>
             | Some p \<Rightarrow>
                 (let s1 = s\<lparr> calls := calls s @ [DeleteDoc p] \<rparr>
                  in case res of
                       Resolved \<Rightarrow> s1
                     | Rejected err \<Rightarrow>
                         s1\<lparr> console := console s1 @
                               [ConsoleError ''Error deleting document:'' err] \<rparr>)))"

subsection \<open>The subscription\<close>

text \<open>
  The comparison function of line 108, \<open>(a, b) => b.timestamp - a.timestamp\<close>. The
  difference of two doubles is rounded again, which keeps its sign; the sort uses the sign
  and nothing else.
\<close>

definition compareFn :: "blog \<Rightarrow> blog \<Rightarrow> rat" where
  "compareFn a b = toNumber (b_timestamp b) - toNumber (b_timestamp a)"

text \<open>
  \<open>Array.prototype.sort\<close> with a comparison function: \<open>a\<close> comes after \<open>b\<close> where
  \<open>cmp a b > 0\<close>, and the sort is stable, so elements that compare equal keep their
  order. The model inserts each element, from the right, in front of the first element it
  does not come after.
\<close>

fun insert_cmp :: "('a \<Rightarrow> 'a \<Rightarrow> rat) \<Rightarrow> 'a \<Rightarrow> 'a list \<Rightarrow> 'a list" where
  "insert_cmp cmp x [] = [x]"
| "insert_cmp cmp x (y # ys) =
     (if cmp x y \<le> 0 then x # y # ys else y # insert_cmp cmp x ys)"

fun sort_cmp :: "('a \<Rightarrow> 'a \<Rightarrow> rat) \<Rightarrow> 'a list \<Rightarrow> 'a list" where
  "sort_cmp cmp [] = []"
| "sort_cmp cmp (x # xs) = insert_cmp cmp x (sort_cmp cmp xs)"

text \<open>The snapshot callback (lines 102--110).\<close>

definition onSnapshot :: "document list \<Rightarrow> app \<Rightarrow> app" where
  "onSnapshot docs s =
     s\<lparr> blogs := sort_cmp compareFn (map toBlog docs), loading := False \<rparr>"

text \<open>The error callback of the subscription (lines 111--113).\<close>

definition onSnapshotError :: "string \<Rightarrow> app \<Rightarrow> app" where
  "onSnapshotError err s =
     s\<lparr> console := console s @ [ConsoleError ''Failed to fetch blogs:'' err] \<rparr>"

text \<open>
  The effect of lines 89--120 subscribes only when \<open>db\<close> and \<open>userId\<close> are truthy (line
  90), and then to the collection of lines 93--100, unless \<open>collection\<close> throws.
  \<open>subscription\<close> is the reference the component listens to in a state, if any.
\<close>

definition subscription :: "app \<Rightarrow> path option" where
  "subscription s =
     (case userId s of
        None \<Rightarrow> None
      | Some uid \<Rightarrow>
          if \<not> db s \<or> uid = [] then None
          else collection_ref (collection_path (appId s) uid))"

text \<open>
  The \<open>catch\<close> of that effect (lines 116--119), when \<open>collection\<close> or \<open>onSnapshot\<close>
  throws.
\<close>

definition subscribeThrows :: "string \<Rightarrow> app \<Rightarrow> app" where
  "subscribeThrows err s =
     s\<lparr> console := console s @ [ConsoleError ''Firestore snapshot error:'' err],
        loading := False \<rparr>"

subsection \<open>Start-up and authentication\<close>

text \<open>
  How the \<open>try\<close> block of lines 55--81 ends: it runs through, it throws before
  \<open>setDb\<close> and \<open>setAuth\<close> (in \<open>initializeApp\<close>, \<open>getFirestore\<close> or \<open>getAuth\<close>), or
  it throws after them (in \<open>onAuthStateChanged\<close>).
\<close>

datatype init_outcome = InitOk | InitThrowsEarly string | InitThrowsLate string

definition initEffect :: "init_outcome \<Rightarrow> app \<Rightarrow> app" where
  "initEffect r s =
     (if firebaseConfig s = []
      then s\<lparr> console := console s @ [ConsoleError ''Firebase config is not provided.'' []] \<rparr>
      else
        (case r of
           InitOk \<Rightarrow> s\<lparr> db := True, auth := True \<rparr>
         | InitThrowsEarly err \<Rightarrow>
             s\<lparr> console := console s @ [ConsoleError ''Firebase initialization error:'' err],
                loading := False \<rparr>
         | InitThrowsLate err \<Rightarrow>
             s\<lparr> db := True, auth := True,
                console := console s @ [ConsoleError ''Firebase initialization error:'' err],
                loading := False \<rparr>))"

text \<open>The sign-in call of lines 69--73.\<close>

fun signIn_call :: "string option \<Rightarrow> call" where
  "signIn_call None = SignInAnonymously"
| "signIn_call (Some tok) =
     (if tok \<noteq> [] then SignInWithCustomToken tok else SignInAnonymously)"

text \<open>
  The callback given to \<open>onAuthStateChanged\<close> (lines 62--79): \<open>user\<close> is the uid of the
  user, or \<open>None\<close> for \<open>null\<close>; \<open>res\<close> is how the awaited sign-in ends.
\<close>

definition authStateChanged :: "string option \<Rightarrow> outcome \<Rightarrow> app \<Rightarrow> app" where
  "authStateChanged user res s =
     (case user of
        Some uid \<Rightarrow>
          s\<lparr> userId := Some uid, loading := False,
             console := console s @ [ConsoleLog ''Signed in as:'' uid] \<rparr>
      | None \<Rightarrow>
          (let s1 = s\<lparr> calls := calls s @ [signIn_call (initialAuthToken s)] \<rparr>
           in case res of
                Resolved \<Rightarrow> s1
              | Rejected err \<Rightarrow>
                  s1\<lparr> console := console s1 @ [ConsoleError ''Authentication error:'' err],
                      loading := False \<rparr>))"

subsection \<open>Displaying a timestamp\<close>

text \<open>
  What \<open>formatDate\<close> returns: the text \<open>N/A\<close>, or a text that depends on the locale of the
  browser and is kept symbolic: \<open>ToDateLocale sec ns\<close> is
  \<open>timestamp.toDate().toLocaleString()\<close> for the Timestamp of \<open>sec\<close> and \<open>ns\<close>, and
  \<open>NewDateLocale n\<close> is \<open>new Date(n).toLocaleString()\<close>.
\<close>

datatype display = NA | ToDateLocale int nat | NewDateLocale int

text \<open>
  \<open>formatDate\<close> (lines 186--194): \<open>!timestamp\<close> holds for \<open>null\<close> and for the number
  \<open>0\<close>; a Timestamp object has \<open>toDate\<close>; what is left is a number.
\<close>

fun formatDate :: "timestamp \<Rightarrow> display" where
  "formatDate TsNull = NA"
| "formatDate (TsServer sec ns) = ToDateLocale sec ns"
| "formatDate (TsNumber n) = (if n = 0 then NA else NewDateLocale n)"

section \<open>Runs of the component\<close>

text \<open>
  The component is driven by events, each handled to completion before the next: the mount
  effect, a change of the authentication state, what the subscription delivers, and what
  the user does with the form and the list.
\<close>

datatype event =
    Mount init_outcome
  | AuthStateChanged "string option" outcome
  | SubscribeThrows string
  | Snapshot "document list"
  | SnapshotError string
  | SetTitle string
  | SetDescription string
  | SetAuthor string
  | Submit outcome
  | Edit blog
  | Cancel
  | Delete string outcome

text \<open>
  What the collaborators hand over is well-formed: the uid of a user and the id of a
  document of the store are single segments of a path, not empty and without a slash.
\<close>

definition segment_ok :: "string \<Rightarrow> bool" where
  "segment_ok x = (x \<noteq> [] \<and> CHR ''/'' \<notin> set x)"

text \<open>
  The authentication callback exists once \<open>auth\<close> is set; the subscription delivers only
  while there is one; the effect that subscribes runs, and may throw, once \<open>db\<close> and
  \<open>userId\<close> are truthy.
\<close>

fun enabled :: "event \<Rightarrow> app \<Rightarrow> bool" where
  "enabled (AuthStateChanged None res) s = auth s"
| "enabled (AuthStateChanged (Some uid) res) s = (auth s \<and> segment_ok uid)"
| "enabled (SubscribeThrows err) s = (db s \<and> truthy (userId s))"
| "enabled (Snapshot docs) s =
     (subscription s \<noteq> None \<and> list_all (\<lambda>d. segment_ok (doc_id d)) docs)"
| "enabled (SnapshotError err) s = (subscription s \<noteq> None)"
| "enabled e s = True"

fun step :: "event \<Rightarrow> app \<Rightarrow> app" where
  "step (Mount r) s = initEffect r s"
| "step (AuthStateChanged user res) s = authStateChanged user res s"
| "step (SubscribeThrows err) s = subscribeThrows err s"
| "step (Snapshot docs) s = onSnapshot docs s"
| "step (SnapshotError err) s = onSnapshotError err s"
| "step (SetTitle v) s = s\<lparr> title := v \<rparr>"
| "step (SetDescription v) s = s\<lparr> description := v \<rparr>"
| "step (SetAuthor v) s = s\<lparr> author := v \<rparr>"
| "step (Submit res) s = handleSubmit res s"
| "step (Edit b) s = handleEdit b s"
| "step Cancel s = resetForm s"
| "step (Delete i res) s = handleDelete i res s"

text \<open>A run: \<open>None\<close> when an event comes that cannot occur in the state it meets.\<close>

fun run :: "event list \<Rightarrow> app \<Rightarrow> app option" where
  "run [] s = Some s"
| "run (e # es) s = (if enabled e s then run es (step e s) else None)"

text \<open>
  An application id with which the collection of a user is a collection: an odd number of
  segments and no two slashes in a row.
\<close>

definition app_ok :: "string \<Rightarrow> bool" where
  "app_ok a = (odd (length (pieces a)) \<and> \<not> double_slash a)"

text \<open>
  What every state of a run satisfies: \<open>db\<close> and \<open>auth\<close> are set together; \<open>userId\<close> is
  set only by the authentication callback, which clears \<open>loading\<close> in the same step, and
  nothing sets \<open>loading\<close> again; the list is filled only by a snapshot, which needs a
  subscription and delivers documents of the store.
\<close>

definition run_inv :: "app \<Rightarrow> bool" where
  "run_inv s \<longleftrightarrow>
     (auth s \<longrightarrow> db s) \<and>
     (\<forall>uid. userId s = Some uid \<longrightarrow> auth s \<and> \<not> loading s \<and> segment_ok uid) \<and>
     (blogs s \<noteq> [] \<longrightarrow> userId s \<noteq> None \<and> app_ok (appId s)) \<and>
     list_all (\<lambda>b. segment_ok (b_id b)) (blogs s)"

section \<open>Properties of a list and of a call\<close>

text \<open>The names of the fields a write carries.\<close>

fun field_names :: "call \<Rightarrow> string list" where
  "field_names (AddDoc p fs) = map fst fs"
| "field_names (UpdateDoc p fs) = map fst fs"
| "field_names c = []"

text \<open>
  The order the specification describes for entries without a resolved timestamp: every
  such entry stands before every entry that has one.
\<close>

fun unresolved_first :: "blog list \<Rightarrow> bool" where
  "unresolved_first [] = True"
| "unresolved_first (x # xs) =
     (if b_timestamp x = TsNull then unresolved_first xs
      else list_all (\<lambda>y. b_timestamp y \<noteq> TsNull) xs)"

section \<open>Examples\<close>

definition example_globals :: globals where
  "example_globals =
     \<lparr> g_app_id = Some ''app1'',
       g_firebase_config = Some [(''projectId'', ''demo'')],
       g_initial_auth_token = None \<rparr>"

text \<open>The component after start-up and an anonymous sign-in as user \<open>u1\<close>.\<close>

definition signed_in :: "event list" where
  "signed_in =
     [Mount InitOk, AuthStateChanged None Resolved, AuthStateChanged (Some ''u1'') Resolved]"

text \<open>Then the user fills in the form for a new post.\<close>

definition hello_post :: "event list" where
  "hello_post =
     signed_in @ [SetTitle ''Hello'', SetDescription ''World'', SetAuthor ''Ada'']"

text \<open>
  Two documents of the collection: the post of the form, written a moment ago, whose
  timestamp the server has not yet resolved, and an older post, written at 1700000000
  seconds since 1970.
\<close>

definition pending_doc :: document where
  "pending_doc =
     \<lparr> doc_id = ''p2'',
       doc_fields = \<lparr> d_title = ''Hello'', d_description = ''World'', d_author = ''Ada'',
                      d_timestamp = TsNull \<rparr> \<rparr>"

definition resolved_doc :: document where
  "resolved_doc =
     \<lparr> doc_id = ''p1'',
       doc_fields = \<lparr> d_title = ''Old'', d_description = ''Post'', d_author = ''Ada'',
                      d_timestamp = TsServer 1700000000 0 \<rparr> \<rparr>"

text \<open>
  The store delivers a snapshot of both documents, and the user takes the older post into
  the form and changes its title.
\<close>

definition edit_post :: "event list" where
  "edit_post =
     signed_in @ [Snapshot [pending_doc, resolved_doc], Edit (toBlog resolved_doc),
                  SetTitle ''New'']"

definition hello_state :: app where
  "hello_state = fold step hello_post (initial example_globals)"

definition edit_state :: app where
  "edit_state = fold step edit_post (initial example_globals)"

text \<open>
  The user submits the form of \<open>hello_post\<close>, the store accepts the write, and the
  snapshot that follows delivers the new post, still pending, with the older one.
\<close>

definition posted :: "event list" where
  "posted = hello_post @ [Submit Resolved, Snapshot [pending_doc, resolved_doc]]"

definition posted_state :: app where
  "posted_state = fold step posted (initial example_globals)"

text \<open>
  The same form on a page whose application id is \<open>a/b\<close>: the collection of the user
  would have six segments, so the effect that subscribes throws.
\<close>

definition slash_globals :: globals where
  "slash_globals =
     \<lparr> g_app_id = Some ''a/b'',
       g_firebase_config = Some [(''projectId'', ''demo'')],
       g_initial_auth_token = None \<rparr>"

definition slash_post :: "event list" where
  "slash_post =
     signed_in @ [SubscribeThrows ''invalid-argument'',
                  SetTitle ''Hello'', SetDescription ''World'', SetAuthor ''Ada'']"

definition slash_state :: app where
  "slash_state = fold step slash_post (initial slash_globals)"

section \<open>Unfolding the callbacks and the examples\<close>

lemmas callback_defs =
  initEffect_def authStateChanged_def subscribeThrows_def onSnapshot_def onSnapshotError_def
  handleSubmit_def handleEdit_def resetForm_def handleDelete_def reject_submit_def
  subscription_def

lemmas example_defs =
  hello_post_def edit_post_def signed_in_def initial_def example_globals_def
  pending_doc_def resolved_doc_def toBlog_def compareFn_def

text \<open>A single segment is its own and only piece.\<close>

lemma split_slash_no_slash: "CHR ''/'' \<notin> set x \<Longrightarrow> split_slash x = [x]"
  by (induction x) auto

lemma double_slash_no_slash: "CHR ''/'' \<notin> set x \<Longrightarrow> \<not> double_slash x"
  by (induction x rule: double_slash.induct) auto

lemma segment_ok_pieces: "segment_ok x \<Longrightarrow> pieces x = [x]"
  by (simp add: segment_ok_def pieces_def split_slash_no_slash)

lemma segment_ok_double_slash: "segment_ok x \<Longrightarrow> \<not> double_slash x"
  by (simp add: segment_ok_def double_slash_no_slash)

lemma segment_ok_literals:
  "segment_ok ''artifacts''" "segment_ok ''users''" "segment_ok ''blog_posts''"
  by (simp_all add: segment_ok_def)

text \<open>
  With a well-formed uid and document id, whether \<open>collection\<close> and \<open>doc\<close> throw is a
  matter of the application id alone.
\<close>

lemma collection_ref_user:
  assumes "segment_ok uid"
  shows "collection_ref (collection_path a uid) =
           (if app_ok a then Some (collection_path a uid) else None)"
  using assms segment_ok_literals
  by (auto simp: collection_ref_def segments_def collection_path_def app_ok_def
      segment_ok_pieces segment_ok_double_slash)

lemma doc_ref_user:
  assumes "segment_ok uid" and "segment_ok i"
  shows "doc_ref (doc_path a uid i) = (if app_ok a then Some (doc_path a uid i) else None)"
  using assms segment_ok_literals
  by (auto simp: doc_ref_def segments_def doc_path_def app_ok_def
      segment_ok_pieces segment_ok_double_slash)

lemma collection_ref_Some: "collection_ref p = Some q \<Longrightarrow> q = p"
  by (auto simp: collection_ref_def split: option.splits if_splits)

lemma doc_ref_Some: "doc_ref p = Some q \<Longrightarrow> q = p"
  by (auto simp: doc_ref_def split: option.splits if_splits)

lemma app_ok_app1: "app_ok ''app1''"
  by (simp add: app_ok_def pieces_def)

lemma not_app_ok_slash: "\<not> app_ok ''a/b''"
  by (simp add: app_ok_def pieces_def)

lemma segment_ok_examples: "segment_ok ''u1''" "segment_ok ''p1''" "segment_ok ''p2''"
  by (simp_all add: segment_ok_def)

lemma example_refs:
  "collection_ref (collection_path ''app1'' ''u1'') = Some (collection_path ''app1'' ''u1'')"
  "doc_ref (doc_path ''app1'' ''u1'' ''p1'') = Some (doc_path ''app1'' ''u1'' ''p1'')"
  "collection_ref (collection_path ''a/b'' ''u1'') = None"
  by (simp_all add: collection_ref_user doc_ref_user segment_ok_examples app_ok_app1
      not_app_ok_slash)

text \<open>The number of the timestamp of the older post: the seconds since the year 1.\<close>

lemma double_of_resolved: "double_of 63835596800000000000 1000000000 = 63835596800"
  by (simp add: double_of_def to_double_def binade_def round_half_even_def pow2_def
      bits.simps Let_def)

lemma toNumber_resolved: "toNumber (TsServer 1700000000 0) = 63835596800"
  by (simp add: double_of_resolved)

lemma compare_example: "compareFn (toBlog pending_doc) (toBlog resolved_doc) = 63835596800"
  by (simp add: compareFn_def toBlog_def pending_doc_def resolved_doc_def double_of_resolved)

lemma sorted_example:
  "sort_cmp compareFn [toBlog pending_doc, toBlog resolved_doc] =
     [toBlog resolved_doc, toBlog pending_doc]"
  by (simp add: compare_example)

text \<open>The example states, written out.\<close>

lemma hello_state_eq:
  "hello_state =
     \<lparr> appId = ''app1'', firebaseConfig = [(''projectId'', ''demo'')],
       initialAuthToken = None, blogs = [], title = ''Hello'',
       description = ''World'', author = ''Ada'', editingId = None,
       loading = False, userId = Some ''u1'', db = True, auth = True,
       calls = [SignInAnonymously],
       console = [ConsoleLog ''Signed in as:'' ''u1''], alerts = [] \<rparr>"
  by (simp add: hello_state_def hello_post_def signed_in_def initial_def example_globals_def
      callback_defs)

lemma edit_state_eq:
  "edit_state =
     \<lparr> appId = ''app1'', firebaseConfig = [(''projectId'', ''demo'')],
       initialAuthToken = None,
       blogs = [toBlog resolved_doc, toBlog pending_doc],
       title = ''New'', description = ''Post'', author = ''Ada'',
       editingId = Some ''p1'', loading = False, userId = Some ''u1'',
       db = True, auth = True, calls = [SignInAnonymously],
       console = [ConsoleLog ''Signed in as:'' ''u1''], alerts = [] \<rparr>"
  by (simp add: edit_state_def edit_post_def signed_in_def initial_def example_globals_def
      callback_defs compare_example)
    (simp add: toBlog_def resolved_doc_def)

lemma posted_state_eq:
  "posted_state =
     \<lparr> appId = ''app1'', firebaseConfig = [(''projectId'', ''demo'')],
       initialAuthToken = None,
       blogs = [toBlog resolved_doc, toBlog pending_doc],
       title = [], description = [], author = [],
       editingId = None, loading = False, userId = Some ''u1'',
       db = True, auth = True,
       calls = [SignInAnonymously,
                AddDoc [''artifacts'', ''app1'', ''users'', ''u1'', ''blog_posts'']
                  [(''title'', Text ''Hello''), (''description'', Text ''World''),
                   (''author'', Text ''Ada''), (''timestamp'', ServerTimestamp)]],
       console = [ConsoleLog ''Signed in as:'' ''u1''], alerts = [] \<rparr>"
  by (simp add: posted_state_def posted_def hello_post_def signed_in_def initial_def
      example_globals_def callback_defs compare_example example_refs blogData_def)
    (simp add: collection_path_def)

lemma slash_state_eq:
  "slash_state =
     \<lparr> appId = ''a/b'', firebaseConfig = [(''projectId'', ''demo'')],
       initialAuthToken = None, blogs = [], title = ''Hello'',
       description = ''World'', author = ''Ada'', editingId = None,
       loading = False, userId = Some ''u1'', db = True, auth = True,
       calls = [SignInAnonymously],
       console = [ConsoleLog ''Signed in as:'' ''u1'',
                  ConsoleError ''Firestore snapshot error:'' ''invalid-argument''],
       alerts = [] \<rparr>"
  by (simp add: slash_state_def slash_post_def signed_in_def initial_def slash_globals_def
      callback_defs)

lemma run_hello_post: "run hello_post (initial example_globals) = Some hello_state"
  by (simp add: hello_state_def hello_post_def signed_in_def initial_def example_globals_def
      callback_defs segment_ok_examples)

lemma run_edit_post: "run edit_post (initial example_globals) = Some edit_state"
  by (simp add: edit_state_def edit_post_def signed_in_def initial_def example_globals_def
      callback_defs segment_ok_examples example_refs pending_doc_def resolved_doc_def)

lemma run_slash_post: "run slash_post (initial slash_globals) = Some slash_state"
  by (simp add: slash_state_def slash_post_def signed_in_def initial_def slash_globals_def
      callback_defs segment_ok_examples)

section \<open>What holds in every state of a run\<close>

lemma set_insert_cmp: "set (insert_cmp cmp x xs) = insert x (set xs)"
  by (induction xs) auto

lemma set_sort_cmp: "set (sort_cmp cmp xs) = set xs"
  by (induction xs) (auto simp: set_insert_cmp)

lemma run_inv_initial: "run_inv (initial g)"
  by (simp add: run_inv_def initial_def)

lemma subscription_app_ok:
  assumes "subscription s \<noteq> None" and "userId s = Some uid" and "segment_ok uid"
  shows "app_ok (appId s)"
  using assms by (auto simp: subscription_def collection_ref_user split: if_splits)

lemma run_inv_snapshot:
  assumes "run_inv s" and "enabled (Snapshot docs) s"
  shows "run_inv (onSnapshot docs s)"
proof -
  from assms(2) obtain uid where uid: "userId s = Some uid"
    by (auto simp: subscription_def split: option.splits)
  with assms(1) have ok: "segment_ok uid" and a: "auth s" and d: "auth s \<longrightarrow> db s"
    by (auto simp: run_inv_def)
  from assms(2) have "subscription s \<noteq> None" by simp
  then have "app_ok (appId s)" using uid ok by (rule subscription_app_ok)
  moreover from assms(2) have "list_all (\<lambda>b. segment_ok (b_id b)) (map toBlog docs)"
    by (simp add: list_all_iff toBlog_def)
  ultimately show ?thesis
    using uid ok a d
    by (simp add: run_inv_def onSnapshot_def list_all_iff set_sort_cmp)
qed

lemma run_inv_step:
  assumes "run_inv s" and "enabled e s"
  shows "run_inv (step e s)"
proof (cases e)
  case (Snapshot docs)
  with assms show ?thesis by (simp add: run_inv_snapshot)
next
  case (AuthStateChanged user res)
  with assms show ?thesis
    by (cases user)
      (auto simp: run_inv_def authStateChanged_def Let_def split: outcome.splits)
next
  case (Mount r)
  with assms show ?thesis
    by (auto simp: run_inv_def initEffect_def split: init_outcome.splits)
next
  case (Submit res)
  with assms show ?thesis
    by (auto simp: run_inv_def handleSubmit_def reject_submit_def resetForm_def Let_def
        split: option.splits outcome.splits)
next
  case (Delete i res)
  with assms show ?thesis
    by (auto simp: run_inv_def handleDelete_def Let_def split: option.splits outcome.splits)
qed (use assms in \<open>auto simp: run_inv_def subscribeThrows_def onSnapshotError_def
      handleEdit_def resetForm_def\<close>)

lemma run_inv_run:
  "run_inv s \<Longrightarrow> run es s = Some s' \<Longrightarrow> run_inv s'"
proof (induction es arbitrary: s)
  case Nil
  then show ?case by simp
next
  case (Cons e es)
  from Cons.prems(2) have en: "enabled e s" and rest: "run es (step e s) = Some s'"
    by (simp_all split: if_splits)
  from Cons.prems(1) en have "run_inv (step e s)" by (rule run_inv_step)
  with rest show ?case by (rule Cons.IH[rotated])
qed

lemma run_inv_reachable: "run es (initial g) = Some s \<Longrightarrow> run_inv s"
  using run_inv_initial by (rule run_inv_run)

lemma reachable_user:
  assumes "run es (initial g) = Some s" and "userId s = Some uid"
  shows "uid \<noteq> []" and "db s" and "\<not> loading s" and "segment_ok uid"
  using run_inv_reachable[OF assms(1)] assms(2) by (auto simp: run_inv_def segment_ok_def)

lemma reachable_blog:
  assumes "run es (initial g) = Some s" and "b \<in> set (blogs s)"
  shows "segment_ok (b_id b)" and "\<exists>uid. userId s = Some uid" and "app_ok (appId s)"
  using run_inv_reachable[OF assms(1)] assms(2) by (auto simp: run_inv_def list_all_iff)

lemma run_posted: "run posted (initial example_globals) = Some posted_state"
proof -
  have "run posted (initial example_globals) =
          run [Submit Resolved, Snapshot [pending_doc, resolved_doc]] hello_state"
    using run_hello_post
    by (simp add: posted_def hello_post_def signed_in_def initial_def example_globals_def
        callback_defs segment_ok_examples hello_state_def)
  also have "\<dots> = Some (fold step [Submit Resolved, Snapshot [pending_doc, resolved_doc]]
                         hello_state)"
    by (simp add: hello_state_eq callback_defs example_refs segment_ok_examples
        pending_doc_def resolved_doc_def)
  also have "fold step [Submit Resolved, Snapshot [pending_doc, resolved_doc]] hello_state =
               posted_state"
    by (simp add: posted_state_def posted_def hello_state_def)
  finally show ?thesis .
qed

section \<open>Submitting the form\<close>

lemma handleSubmit_valid:
  assumes "userId s = Some uid" "uid \<noteq> []" "db s"
    and "title s \<noteq> []" "description s \<noteq> []" "author s \<noteq> []"
    and "write_call s uid = Some c"
  shows "calls (handleSubmit res s) = calls s @ [c]"
    and "draft (handleSubmit Resolved s) = ([], [], [], None)"
    and "draft (handleSubmit (Rejected err) s) = draft s"
    and "console (handleSubmit (Rejected err) s) =
           console s @ [ConsoleError ''Error adding/updating document:'' err]"
  using assms
  by (auto simp: handleSubmit_def resetForm_def draft_def Let_def split: outcome.splits)

lemma handleSubmit_throws:
  assumes "userId s = Some uid" and "write_call s uid = None"
  shows "calls (handleSubmit res s) = calls s"
    and "draft (handleSubmit res s) = draft s"
  using assms
  by (auto simp: handleSubmit_def reject_submit_def draft_def)

lemma handleSubmit_invalid:
  assumes "title s = [] \<or> description s = [] \<or> author s = [] \<or> \<not> db s \<or> \<not> truthy (userId s)"
  shows "handleSubmit res s = reject_submit s"
  using assms by (auto simp: handleSubmit_def split: option.splits)

text \<open>
  C4 reads: with the three fields non-empty, no \<open>editingId\<close> and an authenticated user,
  submit issues exactly one create call and then resets the Draft. Two runs show otherwise.
  In the first the user \<open>u1\<close> submits the post of Ada and the store rejects the
  \<open>addDoc\<close>: the Draft is not reset. In the second the application id of the page is
  \<open>a/b\<close>: \<open>collection\<close> throws inside the \<open>try\<close> and no call is issued at all.
\<close>

theorem C4_no_reset_or_no_create_counterexample:
  "userId hello_state = Some ''u1''
   \<and> draft hello_state = (''Hello'', ''World'', ''Ada'', None)
   \<and> draft (handleSubmit (Rejected ''unavailable'') hello_state) =
        (''Hello'', ''World'', ''Ada'', None)
   \<and> userId slash_state = Some ''u1''
   \<and> draft slash_state = (''Hello'', ''World'', ''Ada'', None)
   \<and> calls (handleSubmit Resolved slash_state) = calls slash_state"
  by (simp add: hello_state_eq slash_state_eq handleSubmit_def draft_def example_refs)

text \<open>
  C4, as the code has it. In every state of a run in which a user is authenticated, the
  three fields of the Draft are non-empty and \<open>editingId\<close> is \<open>null\<close>: where \<open>collection\<close>
  returns the collection of that user, \<open>handleSubmit\<close> issues exactly one call, an
  \<open>addDoc\<close> on that collection with the three fields and the server-timestamp request,
  whatever the outcome of the call; the Draft is reset to all-empty with no \<open>editingId\<close>
  when the call resolves, and is left as it was when the call is rejected. Where
  \<open>collection\<close> throws, no call is issued and the Draft is left as it was.
\<close>

theorem C4_create_once_reset_on_success:
  assumes "run es (initial g) = Some s"
    and "userId s = Some uid"
    and "title s \<noteq> []" and "description s \<noteq> []" and "author s \<noteq> []"
    and "editingId s = None"
  shows "(collection_ref (collection_path (appId s) uid) \<noteq> None \<longrightarrow>
            calls (handleSubmit res s) =
              calls s @ [AddDoc (collection_path (appId s) uid)
                           [(''title'', Text (title s)),
                            (''description'', Text (description s)),
                            (''author'', Text (author s)),
                            (''timestamp'', ServerTimestamp)]]
            \<and> draft (handleSubmit Resolved s) = ([], [], [], None)
            \<and> draft (handleSubmit (Rejected err) s) = draft s)
         \<and> (collection_ref (collection_path (appId s) uid) = None \<longrightarrow>
            calls (handleSubmit res s) = calls s
            \<and> draft (handleSubmit res s) = draft s)"
proof (intro conjI impI)
  have u: "uid \<noteq> []" and d: "db s"
    using reachable_user[OF assms(1,2)] by simp_all
  {
    assume "collection_ref (collection_path (appId s) uid) \<noteq> None"
    then have "collection_ref (collection_path (appId s) uid) =
                 Some (collection_path (appId s) uid)"
      by (auto dest: collection_ref_Some)
    then have w: "write_call s uid =
        Some (AddDoc (collection_path (appId s) uid)
          [(''title'', Text (title s)), (''description'', Text (description s)),
           (''author'', Text (author s)), (''timestamp'', ServerTimestamp)])"
      using assms(6) by (simp add: blogData_def)
    show "calls (handleSubmit res s) =
            calls s @ [AddDoc (collection_path (appId s) uid)
                         [(''title'', Text (title s)),
                          (''description'', Text (description s)),
                          (''author'', Text (author s)),
                          (''timestamp'', ServerTimestamp)]]"
      using assms(2) u d assms(3-5) w by (rule handleSubmit_valid(1))
    show "draft (handleSubmit Resolved s) = ([], [], [], None)"
      using assms(2) u d assms(3-5) w by (rule handleSubmit_valid(2))
    show "draft (handleSubmit (Rejected err) s) = draft s"
      using assms(2) u d assms(3-5) w by (rule handleSubmit_valid(3))
  }
  {
    assume "collection_ref (collection_path (appId s) uid) = None"
    then have w: "write_call s uid = None"
      using assms(6) by simp
    show "calls (handleSubmit res s) = calls s"
      using assms(2) w by (rule handleSubmit_throws(1))
    show "draft (handleSubmit res s) = draft s"
      using assms(2) w by (rule handleSubmit_throws(2))
  }
qed

text \<open>
  The post of Ada, submitted by user \<open>u1\<close> of application \<open>app1\<close>, accepted and rejected;
  and the same post on the page with the application id \<open>a/b\<close>.
\<close>

theorem C4_create_once_reset_on_success_witness:
  "run hello_post (initial example_globals) = Some hello_state
   \<and> userId hello_state = Some ''u1''
   \<and> title hello_state \<noteq> [] \<and> description hello_state \<noteq> [] \<and> author hello_state \<noteq> []
   \<and> editingId hello_state = None
   \<and> collection_ref (collection_path (appId hello_state) ''u1'') \<noteq> None
   \<and> calls (handleSubmit Resolved hello_state) =
        [SignInAnonymously,
         AddDoc [''artifacts'', ''app1'', ''users'', ''u1'', ''blog_posts'']
           [(''title'', Text ''Hello''), (''description'', Text ''World''),
            (''author'', Text ''Ada''), (''timestamp'', ServerTimestamp)]]
   \<and> draft (handleSubmit Resolved hello_state) = ([], [], [], None)
   \<and> draft (handleSubmit (Rejected ''unavailable'') hello_state) =
        (''Hello'', ''World'', ''Ada'', None)
   \<and> run slash_post (initial slash_globals) = Some slash_state
   \<and> collection_ref (collection_path (appId slash_state) ''u1'') = None
   \<and> calls (handleSubmit Resolved slash_state) = [SignInAnonymously]
   \<and> draft (handleSubmit Resolved slash_state) = (''Hello'', ''World'', ''Ada'', None)"
proof -
  have r: "run hello_post (initial example_globals) = Some hello_state"
    by (rule run_hello_post)
  have h: "userId hello_state = Some ''u1''" "title hello_state \<noteq> []"
    "description hello_state \<noteq> []" "author hello_state \<noteq> []" "editingId hello_state = None"
    by (simp_all add: hello_state_eq)
  have c: "collection_ref (collection_path (appId hello_state) ''u1'') \<noteq> None"
    by (simp add: hello_state_eq example_refs)
  have r': "run slash_post (initial slash_globals) = Some slash_state"
    by (rule run_slash_post)
  have h': "userId slash_state = Some ''u1''" "title slash_state \<noteq> []"
    "description slash_state \<noteq> []" "author slash_state \<noteq> []" "editingId slash_state = None"
    by (simp_all add: slash_state_eq)
  have c': "collection_ref (collection_path (appId slash_state) ''u1'') = None"
    by (simp add: slash_state_eq example_refs)
  show ?thesis
    using r h c r' h' c'
      C4_create_once_reset_on_success[OF r h, of Resolved "''unavailable''"]
      C4_create_once_reset_on_success[OF r' h', of Resolved "''unavailable''"]
    by (simp add: hello_state_eq slash_state_eq collection_path_def draft_def)
qed

text \<open>
  C5. When one of title, description and author is empty, or when there is no authenticated
  user id, \<open>handleSubmit\<close> issues no call at all and tells the user through the alert
  \<open>Please fill out all fields.\<close>, which is how the component surfaces the validation
  error; nothing is logged and the Draft stays as it is.
\<close>

theorem C5_invalid_submit_no_call:
  assumes "title s = [] \<or> description s = [] \<or> author s = [] \<or> \<not> truthy (userId s)"
  shows "calls (handleSubmit res s) = calls s
         \<and> alerts (handleSubmit res s) = alerts s @ [''Please fill out all fields.'']
         \<and> console (handleSubmit res s) = console s
         \<and> draft (handleSubmit res s) = draft s"
proof -
  have "handleSubmit res s = reject_submit s"
    using assms by (intro handleSubmit_invalid) blast
  then show ?thesis by (simp add: reject_submit_def draft_def)
qed

text \<open>The form of Ada with the author left out.\<close>

theorem C5_invalid_submit_no_call_witness:
  "(title (hello_state\<lparr> author := [] \<rparr>) = []
      \<or> description (hello_state\<lparr> author := [] \<rparr>) = []
      \<or> author (hello_state\<lparr> author := [] \<rparr>) = []
      \<or> \<not> truthy (userId (hello_state\<lparr> author := [] \<rparr>)))
   \<and> calls (handleSubmit Resolved (hello_state\<lparr> author := [] \<rparr>)) = [SignInAnonymously]
   \<and> alerts (handleSubmit Resolved (hello_state\<lparr> author := [] \<rparr>)) =
        [''Please fill out all fields.'']"
proof -
  have h: "title (hello_state\<lparr> author := [] \<rparr>) = []
      \<or> description (hello_state\<lparr> author := [] \<rparr>) = []
      \<or> author (hello_state\<lparr> author := [] \<rparr>) = []
      \<or> \<not> truthy (userId (hello_state\<lparr> author := [] \<rparr>))"
    by simp
  show ?thesis
    using h C5_invalid_submit_no_call[OF h, of Resolved]
    by (simp add: hello_state_eq)
qed

text \<open>
  C6. A submit whose \<open>addDoc\<close> or \<open>updateDoc\<close> is rejected leaves the Draft (title,
  description, author, \<open>editingId\<close>) exactly as it was, and whenever a call was issued the
  error is reported on the console.
\<close>

theorem C6_failed_submit_keeps_draft:
  "draft (handleSubmit (Rejected err) s) = draft s
   \<and> (calls (handleSubmit (Rejected err) s) \<noteq> calls s \<longrightarrow>
        console (handleSubmit (Rejected err) s) =
          console s @ [ConsoleError ''Error adding/updating document:'' err])"
  by (auto simp: handleSubmit_def reject_submit_def draft_def Let_def split: option.splits)

text \<open>The edit of post \<open>p1\<close>, rejected by the store.\<close>

theorem C6_failed_submit_keeps_draft_witness:
  "calls (handleSubmit (Rejected ''unavailable'') edit_state) \<noteq> calls edit_state
   \<and> draft (handleSubmit (Rejected ''unavailable'') edit_state) =
        (''New'', ''Post'', ''Ada'', Some ''p1'')
   \<and> console (handleSubmit (Rejected ''unavailable'') edit_state) =
        [ConsoleLog ''Signed in as:'' ''u1'',
         ConsoleError ''Error adding/updating document:'' ''unavailable'']"
proof -
  have h: "calls (handleSubmit (Rejected ''unavailable'') edit_state) \<noteq> calls edit_state"
    by (simp add: edit_state_eq handleSubmit_def example_refs)
  show ?thesis
    using h C6_failed_submit_keeps_draft[of "''unavailable''" edit_state]
    by (simp add: edit_state_eq draft_def)
qed

text \<open>
  C1 reads: the update call of a submit carries only the three text fields, and not the id
  or the timestamp. When the user has taken post \<open>p1\<close> into the form, changed its title
  and submits, the \<open>updateDoc\<close> carries a fourth field, \<open>timestamp\<close>: \<open>blogData\<close> is built
  once (lines 130--135) and passed to \<open>updateDoc\<close> as it is to \<open>addDoc\<close>.
\<close>

theorem C1_update_carries_timestamp_counterexample:
  "field_names (last (calls (handleSubmit Resolved edit_state))) =
     [''title'', ''description'', ''author'', ''timestamp'']"
  by (simp add: edit_state_eq handleSubmit_def resetForm_def blogData_def example_refs)

text \<open>
  C1, as the code has it. In every state of a run in which \<open>editingId\<close> is the id of a post
  of the list and the three text fields are non-empty, \<open>handleSubmit\<close> issues exactly one
  call, an \<open>updateDoc\<close> on the document of that id under the current user, carrying title,
  description, author and the server-timestamp request as \<open>timestamp\<close>, and no id; when the
  call resolves, the Draft is reset to all-empty with no \<open>editingId\<close>.
\<close>

theorem C1_update_fields_then_reset:
  assumes "run es (initial g) = Some s"
    and "b \<in> set (blogs s)" and "editingId s = Some (b_id b)"
    and "title s \<noteq> []" and "description s \<noteq> []" and "author s \<noteq> []"
  shows "\<exists>uid. userId s = Some uid
           \<and> calls (handleSubmit res s) =
               calls s @ [UpdateDoc (doc_path (appId s) uid (b_id b))
                            [(''title'', Text (title s)),
                             (''description'', Text (description s)),
                             (''author'', Text (author s)),
                             (''timestamp'', ServerTimestamp)]]
           \<and> draft (handleSubmit Resolved s) = ([], [], [], None)"
proof -
  from reachable_blog[OF assms(1,2)] obtain uid
    where i: "segment_ok (b_id b)" and uid: "userId s = Some uid" and a: "app_ok (appId s)"
    by blast
  have u: "uid \<noteq> []" and d: "db s" and ok: "segment_ok uid"
    using reachable_user[OF assms(1) uid] by simp_all
  have "doc_ref (doc_path (appId s) uid (b_id b)) = Some (doc_path (appId s) uid (b_id b))"
    using ok i a by (simp add: doc_ref_user)
  moreover have "b_id b \<noteq> []"
    using i by (simp add: segment_ok_def)
  ultimately have w: "write_call s uid =
      Some (UpdateDoc (doc_path (appId s) uid (b_id b))
        [(''title'', Text (title s)), (''description'', Text (description s)),
         (''author'', Text (author s)), (''timestamp'', ServerTimestamp)])"
    using assms(3) by (simp add: blogData_def)
  have "calls (handleSubmit res s) =
      calls s @ [UpdateDoc (doc_path (appId s) uid (b_id b))
        [(''title'', Text (title s)), (''description'', Text (description s)),
         (''author'', Text (author s)), (''timestamp'', ServerTimestamp)]]"
    using uid u d assms(4-6) w by (rule handleSubmit_valid(1))
  moreover have "draft (handleSubmit Resolved s) = ([], [], [], None)"
    using uid u d assms(4-6) w by (rule handleSubmit_valid(2))
  ultimately show ?thesis using uid by simp
qed

text \<open>The edit of post \<open>p1\<close>, accepted by the store.\<close>

theorem C1_update_fields_then_reset_witness:
  "run edit_post (initial example_globals) = Some edit_state
   \<and> toBlog resolved_doc \<in> set (blogs edit_state)
   \<and> editingId edit_state = Some (b_id (toBlog resolved_doc))
   \<and> title edit_state \<noteq> [] \<and> description edit_state \<noteq> [] \<and> author edit_state \<noteq> []
   \<and> calls (handleSubmit Resolved edit_state) =
        [SignInAnonymously,
         UpdateDoc [''artifacts'', ''app1'', ''users'', ''u1'', ''blog_posts'', ''p1'']
           [(''title'', Text ''New''), (''description'', Text ''Post''),
            (''author'', Text ''Ada''), (''timestamp'', ServerTimestamp)]]
   \<and> draft (handleSubmit Resolved edit_state) = ([], [], [], None)"
proof -
  have r: "run edit_post (initial example_globals) = Some edit_state"
    by (rule run_edit_post)
  have h: "toBlog resolved_doc \<in> set (blogs edit_state)"
    "editingId edit_state = Some (b_id (toBlog resolved_doc))"
    "title edit_state \<noteq> []" "description edit_state \<noteq> []" "author edit_state \<noteq> []"
    by (simp_all add: edit_state_eq toBlog_def resolved_doc_def)
  show ?thesis
    using r h C1_update_fields_then_reset[OF r h, of Resolved]
    by (auto simp: edit_state_eq doc_path_def toBlog_def resolved_doc_def)
qed

section \<open>Errors of the subscription\<close>

text \<open>
  C3. On every error event of the subscription, in any state of a run, the error is logged,
  the loading flag is \<open>false\<close> afterwards, and the list of posts is the one before the event.
  The error callback (lines 111--113) only logs; \<open>loading\<close> is \<open>false\<close> after it because a
  subscription exists only once \<open>userId\<close> is set, and the callback that sets \<open>userId\<close> has
  cleared \<open>loading\<close> (lines 64--65).
\<close>

theorem C3_subscription_error:
  assumes "run es (initial g) = Some s" and "enabled (SnapshotError err) s"
  shows "console (onSnapshotError err s) =
           console s @ [ConsoleError ''Failed to fetch blogs:'' err]
         \<and> \<not> loading (onSnapshotError err s)
         \<and> blogs (onSnapshotError err s) = blogs s"
proof -
  from assms(2) obtain uid where "userId s = Some uid"
    by (auto simp: subscription_def split: option.splits)
  with assms(1) have "\<not> loading s" by (rule reachable_user(3))
  then show ?thesis by (simp add: onSnapshotError_def)
qed

text \<open>The store denies the subscription of user \<open>u1\<close> after a first snapshot.\<close>

theorem C3_subscription_error_witness:
  "run edit_post (initial example_globals) = Some edit_state
   \<and> enabled (SnapshotError ''permission-denied'') edit_state
   \<and> console (onSnapshotError ''permission-denied'' edit_state) =
        [ConsoleLog ''Signed in as:'' ''u1'',
         ConsoleError ''Failed to fetch blogs:'' ''permission-denied'']
   \<and> \<not> loading (onSnapshotError ''permission-denied'' edit_state)
   \<and> blogs (onSnapshotError ''permission-denied'' edit_state) =
        [toBlog resolved_doc, toBlog pending_doc]"
proof -
  have r: "run edit_post (initial example_globals) = Some edit_state"
    by (rule run_edit_post)
  have h: "enabled (SnapshotError ''permission-denied'') edit_state"
    by (simp add: edit_state_eq subscription_def example_refs)
  show ?thesis
    using r h C3_subscription_error[OF r h]
    by (simp add: edit_state_eq)
qed

section \<open>The collection of a user\<close>

text \<open>
  C8. Whenever \<open>handleSubmit\<close> issues a create, and whenever the component holds a
  subscription, the reference is the collection \<open>artifacts / appId / users / userId /
  blog_posts\<close> of the application id and the current user id; for application \<open>app1\<close> and
  user \<open>u1\<close> that is the path \<open>artifacts/app1/users/u1/blog_posts\<close>.
\<close>

theorem C8_collection_scope:
  "(calls (handleSubmit res s) = calls s @ [AddDoc p fs] \<longrightarrow>
      (\<exists>uid. userId s = Some uid \<and> p = [''artifacts'', appId s, ''users'', uid, ''blog_posts'']))
   \<and> (subscription s = Some q \<longrightarrow>
      (\<exists>uid. userId s = Some uid \<and> q = [''artifacts'', appId s, ''users'', uid, ''blog_posts'']))
   \<and> path_string (collection_path ''app1'' ''u1'') = ''artifacts/app1/users/u1/blog_posts''"
  by (auto simp: handleSubmit_def reject_submit_def resetForm_def subscription_def
      collection_path_def Let_def
      split: option.splits outcome.splits if_splits
      dest: collection_ref_Some doc_ref_Some)

text \<open>The post of Ada is created in, and the list is read from, the collection of \<open>u1\<close>.\<close>

theorem C8_collection_scope_witness:
  "calls (handleSubmit Resolved hello_state) =
     calls hello_state @
       [AddDoc [''artifacts'', ''app1'', ''users'', ''u1'', ''blog_posts''] (blogData hello_state)]
   \<and> subscription hello_state = Some [''artifacts'', ''app1'', ''users'', ''u1'', ''blog_posts'']
   \<and> userId hello_state = Some ''u1'' \<and> appId hello_state = ''app1''
   \<and> path_string [''artifacts'', ''app1'', ''users'', ''u1'', ''blog_posts''] =
        ''artifacts/app1/users/u1/blog_posts''"
proof -
  have h1: "calls (handleSubmit Resolved hello_state) =
     calls hello_state @
       [AddDoc [''artifacts'', ''app1'', ''users'', ''u1'', ''blog_posts''] (blogData hello_state)]"
    by (simp add: hello_state_eq handleSubmit_def resetForm_def example_refs)
      (simp add: collection_path_def blogData_def)
  have h2: "subscription hello_state =
      Some [''artifacts'', ''app1'', ''users'', ''u1'', ''blog_posts'']"
    by (simp add: hello_state_eq subscription_def example_refs) (simp add: collection_path_def)
  show ?thesis
    using h1 h2
      C8_collection_scope[of Resolved hello_state
        "[''artifacts'', ''app1'', ''users'', ''u1'', ''blog_posts'']" "blogData hello_state"
        "[''artifacts'', ''app1'', ''users'', ''u1'', ''blog_posts'']"]
    by (simp add: hello_state_eq)
qed

section \<open>Displaying a timestamp\<close>

text \<open>
  C9: a post whose write is still pending is to be rendered with the local time of its
  submission, and \<open>formatDate\<close> provides for a number for newly created posts (comment of
  line 192). The code does not get there. In the run \<open>posted\<close> the user submits the post of
  Ada; what \<open>handleSubmit\<close> sends as \<open>timestamp\<close> is the server-timestamp request and no
  time of the local clock; the snapshot that follows delivers the post, the last of the
  list, with the timestamp \<open>null\<close>, and \<open>formatDate\<close> renders it as \<open>N/A\<close>.
\<close>

theorem C9_pending_post_rendered_NA:
  "run posted (initial example_globals) = Some posted_state
   \<and> calls posted_state =
        [SignInAnonymously,
         AddDoc [''artifacts'', ''app1'', ''users'', ''u1'', ''blog_posts'']
           [(''title'', Text ''Hello''), (''description'', Text ''World''),
            (''author'', Text ''Ada''), (''timestamp'', ServerTimestamp)]]
   \<and> b_title (last (blogs posted_state)) = ''Hello''
   \<and> b_timestamp (last (blogs posted_state)) = TsNull
   \<and> formatDate (b_timestamp (last (blogs posted_state))) = NA"
  by (simp add: run_posted posted_state_eq toBlog_def pending_doc_def)

section \<open>Deleting without a user\<close>

text \<open>
  C10. For every id, \<open>handleDelete\<close> while there is no authenticated user id, or before
  the store is initialised, does nothing: no call, no log entry, no alert, and the state is
  the one before.
\<close>

theorem C10_delete_unauthenticated_noop:
  assumes "\<not> truthy (userId s) \<or> \<not> db s"
  shows "handleDelete i res s = s"
  using assms by (auto simp: handleDelete_def split: option.splits)

text \<open>A delete before start-up.\<close>

theorem C10_delete_unauthenticated_noop_witness:
  "userId (initial example_globals) = None
   \<and> handleDelete ''p1'' Resolved (initial example_globals) = initial example_globals"
proof -
  have u: "userId (initial example_globals) = None"
    by (simp add: initial_def)
  then have h: "\<not> truthy (userId (initial example_globals)) \<or> \<not> db (initial example_globals)"
    by simp
  show ?thesis
    using u C10_delete_unauthenticated_noop[OF h, of "''p1''" Resolved]
    by simp
qed

section \<open>The order of the list\<close>

text \<open>
  C2: the list is to show the entries whose timestamp is not yet resolved first. The
  comparison of line 108 has no case for them: \<open>null\<close> counts as \<open>0\<close> in the subtraction,
  below the number of every Timestamp. In the run \<open>posted\<close> the snapshot delivers the
  pending post of Ada before the older post, and the list shows the older post first and
  the pending post last.
\<close>

theorem C2_pending_post_sorted_last:
  "run posted (initial example_globals) = Some posted_state
   \<and> blogs posted_state = [toBlog resolved_doc, toBlog pending_doc]
   \<and> b_timestamp (toBlog resolved_doc) = TsServer 1700000000 0
   \<and> b_timestamp (toBlog pending_doc) = TsNull
   \<and> \<not> unresolved_first (blogs posted_state)"
  by (simp add: run_posted posted_state_eq toBlog_def pending_doc_def resolved_doc_def)

section \<open>The form: editing and cancelling\<close>

text \<open>
  C7. For every post, \<open>startEdit(post)\<close> (\<open>handleEdit\<close>) followed at once by \<open>cancel()\<close>
  (\<open>resetForm\<close>, the handler of the Cancel button) leaves the Draft all-empty: empty title,
  description and author, and no \<open>editingId\<close>.
\<close>

theorem C7_edit_then_cancel_empty:
  "draft (resetForm (handleEdit b s)) = ([], [], [], None)"
  by (simp add: draft_def resetForm_def)

end
